theory Spec2Isabelle
  imports Main
begin

section \<open>The sample module \<open>dummy_module.c\<close>\<close>

text \<open>
  The repository holds one C translation unit:

  \<^verbatim>\<open>int main() { printf("Hello, World\n"); }\<close>

  It is embedded as a function on the state of the program and of the world the
  process runs in. The C runtime around \<open>main\<close> (call \<open>main\<close>, flush the streams,
  leave the process with the value returned) is a small transition system, so that
  termination and the order of the output and the exit can be stated.
\<close>

subsection \<open>The world a process runs in\<close>

text \<open>
  What a hosted C program meets outside itself: its arguments, the environment
  variables, the files, the two output streams, and for standard output

  \<^item> whether a write to it transmits the bytes (\<open>Accepting\<close>), fails with an error and
    transmits nothing (\<open>Refusing\<close>: a closed descriptor, a full device), or meets a
    pipe that has no reader (\<open>No_reader\<close>), which raises the signal \<open>SIGPIPE\<close>;
  \<^item> the buffering that the library has chosen for the stream (C11, 7.21.3: fully
    buffered only if the stream does not refer to an interactive device);
  \<^item> whether the process has inherited \<open>SIGPIPE\<close> as ignored; otherwise the signal
    ends the process.

  \<open>stdout\<close> and \<open>stderr\<close> hold the bytes that have reached the streams so far.
\<close>

datatype signal = SIGPIPE

datatype sink = Accepting | Refusing | No_reader

datatype buffering = Unbuffered | Line_buffered | Fully_buffered

record world =
  argv :: "string list"
  environ :: "(string \<times> string) list"
  files :: "(string \<times> string) list"
  stdout_sink :: sink
  stdout_mode :: buffering
  sigpipe_ignored :: bool
  stdout :: string
  stderr :: string

definition stdout_open :: "world \<Rightarrow> bool" where
  "stdout_open w = (stdout_sink w = Accepting)"

subsection \<open>The library\<close>

text \<open>
  The functions below belong to the C library and the system, not to the repository;
  their behaviour is taken from the C standard and POSIX. The state of a running
  program is the content of the buffer of the stream \<open>stdout\<close> (bytes stored by the
  library and not yet transmitted) together with the world. A call either returns or
  the process is ended by a signal (\<open>Inl\<close>, with the world as it is then).
\<close>

type_synonym state = "string \<times> world"

text \<open>The system call that writes bytes to descriptor 1.\<close>

definition write_stdout :: "string \<Rightarrow> world \<Rightarrow> (signal \<times> world) + (bool \<times> world)" where
  "write_stdout bs w =
     (case stdout_sink w of
        Accepting \<Rightarrow> Inr (True, w\<lparr>stdout := stdout w @ bs\<rparr>)
      | Refusing \<Rightarrow> Inr (False, w)
      | No_reader \<Rightarrow> (if sigpipe_ignored w then Inr (False, w) else Inl (SIGPIPE, w)))"

text \<open>
  Transmit the first \<open>n\<close> bytes of the buffer; none when \<open>n\<close> is 0. After a failed
  write the stream holds no data.
\<close>

definition put :: "nat \<Rightarrow> state \<Rightarrow> (signal \<times> world) + (bool \<times> state)" where
  "put n s =
     (case s of (buf, w) \<Rightarrow>
        if n = 0 then Inr (True, (buf, w))
        else (case write_stdout (take n buf) w of
                Inl k \<Rightarrow> Inl k
              | Inr (ok, w') \<Rightarrow> Inr (ok, (if ok then drop n buf else [], w'))))"

text \<open>The length of the part of a buffer up to and including its last line feed.\<close>

definition line_end :: "string \<Rightarrow> nat" where
  "line_end bs = length bs - length (takeWhile (\<lambda>c. c \<noteq> CHR ''\<newline>'') (rev bs))"

text \<open>
  \<open>printf\<close> (C11, 7.21.6.3), for a format without conversion specifications and with no
  further arguments, as in the only call of the program, and for data that fits into
  the buffer: the characters of the format go to the stream. An unbuffered stream
  transmits them at once, a line buffered stream transmits up to the last line feed, a
  fully buffered stream keeps them. The value is the number of characters, or a
  negative value when an output error occurred during the call.
\<close>

definition printf :: "string \<Rightarrow> state \<Rightarrow> (signal \<times> world) + (int \<times> state)" where
  "printf fmt s =
     (case s of (buf, w) \<Rightarrow>
        let bs = buf @ fmt;
            n = (case stdout_mode w of
                   Unbuffered \<Rightarrow> length bs
                 | Line_buffered \<Rightarrow> line_end bs
                 | Fully_buffered \<Rightarrow> 0)
        in (case put n (bs, w) of
              Inl k \<Rightarrow> Inl k
            | Inr (ok, s') \<Rightarrow> Inr (if ok then int (length fmt) else - 1, s')))"

text \<open>Flushing \<open>stdout\<close> transmits all that its buffer holds.\<close>

definition fflush_stdout :: "state \<Rightarrow> (signal \<times> world) + (bool \<times> state)" where
  "fflush_stdout s = put (length (fst s)) s"

subsection \<open>The program\<close>

text \<open>The string literal of the source, thirteen bytes ending in a line feed.\<close>

definition greeting :: string where
  "greeting = ''Hello, World\<newline>''"

text \<open>
  \<open>main\<close> takes no parameters. Its body is one expression statement, the call of
  \<open>printf\<close>, whose value is dropped; control then reaches the closing brace. The first
  component of the result is the operand of the \<open>return\<close> statement that ended the
  function, \<open>None\<close> when the closing brace was reached without one.
\<close>

definition main :: "state \<Rightarrow> (signal \<times> world) + (int option \<times> state)" where
  "main s = (case printf greeting s of Inl k \<Rightarrow> Inl k | Inr (_, s') \<Rightarrow> Inr (None, s'))"

subsection \<open>The process\<close>

text \<open>
  A process is about to call \<open>main\<close> with an empty buffer; or \<open>main\<close> has returned and
  \<open>exit\<close> is about to flush the buffer; or the streams are flushed and the process is
  about to leave; or it has exited with a status; or a signal has ended it. Reaching
  the closing brace of \<open>main\<close> returns 0 (C99, 5.1.2.2.3); the value returned from
  \<open>main\<close> is the argument of \<open>exit\<close>, which does not look at the outcome of the flush
  (C11, 7.22.4.4); the parent sees the low eight bits of the status. An ended process
  takes no further step.
\<close>

datatype phase =
  In_main | Returned "int option" string | Flushed int | Exited int | Killed signal

type_synonym process = "phase \<times> world"

fun step :: "process \<Rightarrow> process option" where
  "step (In_main, w) =
     (case main ([], w) of
        Inl (k, w') \<Rightarrow> Some (Killed k, w')
      | Inr (r, (buf, w')) \<Rightarrow> Some (Returned r buf, w'))"
| "step (Returned r buf, w) =
     (case fflush_stdout (buf, w) of
        Inl (k, w') \<Rightarrow> Some (Killed k, w')
      | Inr (_, (_, w')) \<Rightarrow> Some (Flushed (case r of None \<Rightarrow> 0 | Some v \<Rightarrow> v), w'))"
| "step (Flushed s, w) = Some (Exited (s mod 256), w)"
| "step (Exited s, w) = None"
| "step (Killed k, w) = None"

text \<open>
  The execution from a state is the list of the states passed through, up to the state
  without successor. The result is \<open>None\<close> for an execution that never ends.
\<close>

partial_function (option) execution :: "process \<Rightarrow> process list option" where
  "execution p =
     (case step p of
        None \<Rightarrow> Some [p]
      | Some p' \<Rightarrow> Option.bind (execution p') (\<lambda>tr. Some (p # tr)))"

declare execution.simps [code]

definition run :: "world \<Rightarrow> process option" where
  "run w = map_option last (execution (In_main, w))"

subsection \<open>Observations\<close>

definition exit_status :: "process \<Rightarrow> int option" where
  "exit_status p = (case fst p of Exited s \<Rightarrow> Some s | _ \<Rightarrow> None)"


text \<open>The bytes that reached standard output since the process started in \<open>w\<close>.\<close>

definition emitted :: "world \<Rightarrow> process \<Rightarrow> string" where
  "emitted w p = drop (length (stdout w)) (stdout (snd p))"

text \<open>
  What a caller of the program sees of one run: the output and the exit status (none
  when a signal ended the process).
\<close>

definition observable :: "world \<Rightarrow> (string \<times> int option) option" where
  "observable w = map_option (\<lambda>p. (emitted w p, exit_status p)) (run w)"

subsection \<open>Concrete worlds\<close>

text \<open>
  Standard output is a file in \<open>sample_world\<close>, a terminal in \<open>other_world\<close>, a closed
  descriptor in \<open>closed_stdout_world\<close>, and a pipe without reader in
  \<open>broken_pipe_world\<close> and \<open>ignored_pipe_world\<close>.
\<close>

definition sample_world :: world where
  "sample_world =
     \<lparr>argv = [''classification.wasm''], environ = [(''HOME'', ''/'')],
      files = [(''/log'', ''x'')], stdout_sink = Accepting, stdout_mode = Fully_buffered,
      sigpipe_ignored = False, stdout = [], stderr = []\<rparr>"

definition other_world :: world where
  "other_world =
     \<lparr>argv = [''classification.wasm'', ''--verbose''], environ = [],
      files = [], stdout_sink = Accepting, stdout_mode = Line_buffered,
      sigpipe_ignored = False, stdout = ''earlier'', stderr = ''warn''\<rparr>"

definition closed_stdout_world :: world where
  "closed_stdout_world = sample_world\<lparr>stdout_sink := Refusing\<rparr>"

definition broken_pipe_world :: world where
  "broken_pipe_world = sample_world\<lparr>stdout_sink := No_reader\<rparr>"

definition ignored_pipe_world :: world where
  "ignored_pipe_world = broken_pipe_world\<lparr>sigpipe_ignored := True\<rparr>"

text \<open>
  The world a run leaves behind, and whether the write of the run ends the process.
\<close>

definition delivered :: "world \<Rightarrow> world" where
  "delivered w = (if stdout_open w then w\<lparr>stdout := stdout w @ greeting\<rparr> else w)"

definition fatal :: "world \<Rightarrow> bool" where
  "fatal w = (stdout_sink w = No_reader \<and> \<not> sigpipe_ignored w)"

section \<open>Basic facts\<close>

lemma greeting_not_empty: "greeting \<noteq> []"
  by (simp add: greeting_def)

lemma length_greeting: "length greeting = 13"
  by (simp add: greeting_def)

lemma line_end_greeting: "line_end greeting = 13"
  by (simp add: line_end_def greeting_def)

lemma write_stdout_eq:
  "write_stdout bs w =
     (if fatal w then Inl (SIGPIPE, w)
      else Inr (stdout_open w, if stdout_open w then w\<lparr>stdout := stdout w @ bs\<rparr> else w))"
  by (simp add: write_stdout_def fatal_def stdout_open_def split: sink.split)

lemma put_all:
  "bs \<noteq> [] \<Longrightarrow>
   put (length bs) (bs, w) =
     (if fatal w then Inl (SIGPIPE, w)
      else Inr (stdout_open w, ([], if stdout_open w then w\<lparr>stdout := stdout w @ bs\<rparr> else w)))"
  by (simp add: put_def write_stdout_eq)

lemma put_greeting:
  "put 13 (greeting, w) =
     (if fatal w then Inl (SIGPIPE, w) else Inr (stdout_open w, ([], delivered w)))"
  using put_all [OF greeting_not_empty, of w] by (simp add: length_greeting delivered_def)

lemma put_none: "put 0 s = Inr (True, s)"
  by (simp add: put_def split: prod.split)

lemma printf_kept:
  "stdout_mode w = Fully_buffered \<Longrightarrow>
   printf greeting ([], w) = Inr (13, (greeting, w))"
  by (simp add: printf_def put_none length_greeting)

lemma printf_sent:
  "stdout_mode w \<noteq> Fully_buffered \<Longrightarrow>
   printf greeting ([], w) =
     (if fatal w then Inl (SIGPIPE, w)
      else Inr (if stdout_open w then 13 else - 1, ([], delivered w)))"
proof -
  assume m: "stdout_mode w \<noteq> Fully_buffered"
  have n: "(case stdout_mode w of Unbuffered \<Rightarrow> length greeting
            | Line_buffered \<Rightarrow> line_end greeting | Fully_buffered \<Rightarrow> 0) = length greeting"
    using m by (cases "stdout_mode w") (simp_all add: line_end_greeting length_greeting)
  show ?thesis
    by (simp add: printf_def n put_greeting length_greeting)
qed

lemma fflush_greeting:
  "fflush_stdout (greeting, w) =
     (if fatal w then Inl (SIGPIPE, w) else Inr (stdout_open w, ([], delivered w)))"
  by (simp add: fflush_stdout_def put_greeting length_greeting)

lemma fflush_empty: "fflush_stdout ([], w) = Inr (True, ([], w))"
  by (simp add: fflush_stdout_def put_none)

lemma execution_halt: "step p = None \<Longrightarrow> execution p = Some [p]"
  by (subst execution.simps) simp

lemma execution_next:
  "step p = Some p' \<Longrightarrow> execution p' = Some tr \<Longrightarrow> execution p = Some (p # tr)"
  by (subst execution.simps) simp

lemma execution_flushed:
  "execution (Flushed 0, w) = Some [(Flushed 0, w), (Exited 0, w)]"
  by (rule execution_next [OF _ execution_halt]) simp_all

lemma execution_kept:
  assumes "stdout_mode w = Fully_buffered"
  shows "execution (In_main, w) =
     Some ((In_main, w) # (Returned None greeting, w) #
           (if fatal w then [(Killed SIGPIPE, w)]
            else [(Flushed 0, delivered w), (Exited 0, delivered w)]))"
proof -
  have s1: "step (In_main, w) = Some (Returned None greeting, w)"
    by (simp add: main_def printf_kept [OF assms])
  show ?thesis
  proof (cases "fatal w")
    case True
    have s2: "step (Returned None greeting, w) = Some (Killed SIGPIPE, w)"
      by (simp add: fflush_greeting True)
    have "execution (Returned None greeting, w) =
            Some [(Returned None greeting, w), (Killed SIGPIPE, w)]"
      by (rule execution_next [OF s2 execution_halt]) simp
    from execution_next [OF s1 this] show ?thesis
      by (simp add: True)
  next
    case False
    have s2: "step (Returned None greeting, w) = Some (Flushed 0, delivered w)"
      by (simp add: fflush_greeting False)
    from execution_next [OF s1 execution_next [OF s2 execution_flushed]] show ?thesis
      by (simp add: False)
  qed
qed

lemma execution_sent:
  assumes "stdout_mode w \<noteq> Fully_buffered"
  shows "execution (In_main, w) =
     Some (if fatal w then [(In_main, w), (Killed SIGPIPE, w)]
           else [(In_main, w), (Returned None [], delivered w),
                 (Flushed 0, delivered w), (Exited 0, delivered w)])"
proof (cases "fatal w")
  case True
  have s1: "step (In_main, w) = Some (Killed SIGPIPE, w)"
    by (simp add: main_def printf_sent [OF assms] True)
  from execution_next [OF s1 execution_halt] show ?thesis
    by (simp add: True)
next
  case False
  have s1: "step (In_main, w) = Some (Returned None [], delivered w)"
    by (simp add: main_def printf_sent [OF assms] False)
  have s2: "step (Returned None [], delivered w) = Some (Flushed 0, delivered w)"
    by (simp add: fflush_empty)
  from execution_next [OF s1 execution_next [OF s2 execution_flushed]] show ?thesis
    by (simp add: False)
qed

lemma run_eq:
  "run w = Some (if fatal w then Killed SIGPIPE else Exited 0, delivered w)"
proof (cases "stdout_mode w = Fully_buffered")
  case True
  show ?thesis
    by (simp add: run_def execution_kept [OF True] delivered_def fatal_def stdout_open_def)
next
  case False
  show ?thesis
    by (simp add: run_def execution_sent [OF False] delivered_def fatal_def stdout_open_def)
qed

lemma emitted_delivered:
  "emitted w (ph, delivered w) = (if stdout_open w then greeting else [])"
  by (simp add: emitted_def delivered_def)

lemma observable_eq:
  "observable w =
     Some (if stdout_open w then greeting else [], if fatal w then None else Some 0)"
  by (simp add: observable_def run_eq exit_status_def emitted_delivered)

lemma fatal_delivered: "fatal (delivered w) = fatal w"
  by (simp add: fatal_def delivered_def)

lemma stdout_open_delivered: "stdout_open (delivered w) = stdout_open w"
  by (simp add: stdout_open_def delivered_def)

lemma observation_depends_on_sigpipe:
  "observable broken_pipe_world \<noteq> observable ignored_pipe_world \<and>
   observable broken_pipe_world \<noteq> observable closed_stdout_world"
  by (simp add: observable_eq fatal_def stdout_open_def broken_pipe_world_def
        ignored_pipe_world_def closed_stdout_world_def sample_world_def)

section \<open>The output\<close>

text \<open>
  Claim C1, as amended: on every execution in which standard output accepts the write,
  the bytes that reach standard output are exactly \<open>Hello, World\<close> followed by a line
  feed, and nothing else.
\<close>

theorem greeting_written_when_stdout_open:
  "stdout_open w \<Longrightarrow> map_option (emitted w) (run w) = Some greeting"
  by (simp add: run_eq emitted_delivered)

theorem greeting_written_when_stdout_open_witness:
  "stdout_open sample_world \<and>
   map_option (emitted sample_world) (run sample_world) = Some ''Hello, World\<newline>''"
proof -
  have h: "stdout_open sample_world"
    by (simp add: sample_world_def stdout_open_def)
  show ?thesis
    using h greeting_written_when_stdout_open [OF h] by (simp add: greeting_def)
qed

text \<open>
  Without the condition the statement fails: started with standard output closed, the
  run ends and the greeting has not been written.
\<close>

theorem greeting_missing_when_stdout_closed:
  "map_option (emitted closed_stdout_world) (run closed_stdout_world) \<noteq> Some greeting"
  by (simp add: run_eq emitted_delivered stdout_open_def closed_stdout_world_def
        sample_world_def greeting_not_empty [symmetric])

section \<open>The exit status\<close>




section \<open>Determinism\<close>

text \<open>
  Claim C3, as amended: two executions that find standard output in the same condition
  and \<open>SIGPIPE\<close> with the same disposition have the same output and the same exit
  status, whatever the arguments, the environment variables, the files, the earlier
  content of the streams and the buffering; and a run started in the world left by an
  earlier run behaves as that run did.
\<close>

theorem same_condition_same_observation:
  "(stdout_sink w1 = stdout_sink w2 \<and> sigpipe_ignored w1 = sigpipe_ignored w2 \<longrightarrow>
      observable w1 = observable w2) \<and>
   Option.bind (run w1) (\<lambda>p. observable (snd p)) = observable w1"
  by (simp add: observable_eq run_eq fatal_delivered stdout_open_delivered)
    (simp add: fatal_def stdout_open_def)

theorem same_condition_same_observation_witness:
  "stdout_sink sample_world = stdout_sink other_world \<and>
   sigpipe_ignored sample_world = sigpipe_ignored other_world \<and>
   sample_world \<noteq> other_world \<and>
   observable sample_world = observable other_world"
proof -
  have h: "stdout_sink sample_world = stdout_sink other_world \<and>
           sigpipe_ignored sample_world = sigpipe_ignored other_world"
    by (simp add: sample_world_def other_world_def)
  have d: "sample_world \<noteq> other_world"
    by (simp add: sample_world_def other_world_def)
  show ?thesis
    using h d same_condition_same_observation [of sample_world other_world] by blast
qed

text \<open>
  Two executions that differ only in the condition of standard output are told apart by
  their output.
\<close>

theorem observation_differs_when_stdout_closed:
  "observable sample_world \<noteq> observable closed_stdout_world"
  by (simp add: observable_eq stdout_open_def closed_stdout_world_def sample_world_def
        greeting_not_empty)

section \<open>Termination\<close>



section \<open>The frame\<close>

text \<open>
  Claim C5: the program has no effect other than the write to standard output. The
  world at the end is the world at the start but for the content of standard output:
  arguments, environment, files and standard error are as they were, standard error
  has received no byte, and what standard output held before is still there, followed
  by the greeting or by nothing.
\<close>

theorem only_stdout_changes:
  "map_option (\<lambda>p. (snd p)\<lparr>stdout := stdout w\<rparr>) (run w) = Some w \<and>
   map_option (\<lambda>p. take (length (stdout w)) (stdout (snd p))) (run w) = Some (stdout w) \<and>
   map_option (\<lambda>p. stderr (snd p)) (run w) = Some (stderr w) \<and>
   map_option (emitted w) (run w) = Some (if stdout_open w then greeting else [])"
  by (simp add: run_eq delivered_def emitted_def)

theorem only_stdout_changes_witness:
  "map_option (\<lambda>p. (snd p)\<lparr>stdout := ''earlier''\<rparr>) (run other_world) = Some other_world \<and>
   map_option (\<lambda>p. take (length ''earlier'') (stdout (snd p))) (run other_world)
     = Some ''earlier'' \<and>
   map_option (\<lambda>p. stderr (snd p)) (run other_world) = Some ''warn'' \<and>
   map_option (emitted other_world) (run other_world) = Some ''Hello, World\<newline>''"
proof -
  have out: "stdout other_world = ''earlier''"
    by (simp add: other_world_def)
  have err: "stderr other_world = ''warn''"
    by (simp add: other_world_def)
  have ok: "stdout_open other_world"
    by (simp add: other_world_def stdout_open_def)
  have g: "greeting = ''Hello, World\<newline>''"
    by (simp add: greeting_def)
  from only_stdout_changes [of other_world] show ?thesis
    unfolding out err g by (simp only: ok if_True)
qed

section \<open>Errors\<close>




section \<open>Order of output and exit\<close>

text \<open>
  Claim C7, as amended: in every execution in which standard output accepts the write,
  the output write happens before process termination. The greeting has been emitted
  in full in the state that precedes the exit, where the streams are flushed: it is
  transmitted during the call of \<open>printf\<close> when the stream is unbuffered or line
  buffered, and during the flush in \<open>exit\<close>, after \<open>main\<close> has returned, when the stream
  is fully buffered.
\<close>

theorem greeting_emitted_before_exit:
  "stdout_open w \<Longrightarrow>
   execution (In_main, w) =
     Some [(In_main, w),
           (Returned None (if stdout_mode w = Fully_buffered then greeting else []),
            if stdout_mode w = Fully_buffered then w else w\<lparr>stdout := stdout w @ greeting\<rparr>),
           (Flushed 0, w\<lparr>stdout := stdout w @ greeting\<rparr>),
           (Exited 0, w\<lparr>stdout := stdout w @ greeting\<rparr>)] \<and>
   emitted w (Flushed 0, w\<lparr>stdout := stdout w @ greeting\<rparr>) = greeting"
proof -
  assume ok: "stdout_open w"
  then have nf: "\<not> fatal w"
    by (simp add: fatal_def stdout_open_def)
  have d: "delivered w = w\<lparr>stdout := stdout w @ greeting\<rparr>"
    by (simp add: delivered_def ok)
  have e: "emitted w (Flushed 0, w\<lparr>stdout := stdout w @ greeting\<rparr>) = greeting"
    by (simp add: emitted_def)
  show ?thesis
  proof (cases "stdout_mode w = Fully_buffered")
    case True
    show ?thesis
      by (simp add: execution_kept [OF True] nf d e True)
  next
    case False
    show ?thesis
      by (simp add: execution_sent [OF False] nf d e False)
  qed
qed

theorem greeting_emitted_before_exit_witness:
  "stdout_open sample_world \<and>
   execution (In_main, sample_world) =
     Some [(In_main, sample_world),
           (Returned None ''Hello, World\<newline>'', sample_world),
           (Flushed 0, sample_world\<lparr>stdout := ''Hello, World\<newline>''\<rparr>),
           (Exited 0, sample_world\<lparr>stdout := ''Hello, World\<newline>''\<rparr>)]"
proof -
  have h: "stdout_open sample_world"
    by (simp add: sample_world_def stdout_open_def)
  have m: "stdout_mode sample_world = Fully_buffered"
    by (simp add: sample_world_def)
  have o: "stdout sample_world = []"
    by (simp add: sample_world_def)
  have g: "greeting = ''Hello, World\<newline>''"
    by (simp add: greeting_def)
  from greeting_emitted_before_exit [OF h] show ?thesis
    unfolding m o g using h by simp
qed

text \<open>
  With standard output closed the process exits with status 0 and the greeting has not
  been emitted.
\<close>

theorem exit_without_greeting_when_stdout_closed:
  "map_option (\<lambda>p. (exit_status p, emitted closed_stdout_world p = greeting))
     (run closed_stdout_world) = Some (Some 0, False)"
  by (simp add: run_eq exit_status_def emitted_delivered fatal_def stdout_open_def
        closed_stdout_world_def sample_world_def greeting_not_empty [symmetric])

section \<open>The value of the call\<close>




end
